theory Spec2Isabelle
  imports Main "HOL-Library.Sublist" "HOL-Library.Char_ord" "HOL-Library.List_Lexorder"
begin

section \<open>The filesystem as the orchestrator reads it\<close>

text \<open>
  \<^verbatim>\<open>main.py\<close> looks at the disk through \<^verbatim>\<open>pathlib\<close> only: \<^verbatim>\<open>Path.iterdir\<close>,
  \<^verbatim>\<open>Path.is_dir\<close> and \<^verbatim>\<open>Path.glob\<close>. A path is the string \<^verbatim>\<open>str(path)\<close>; the disk is a
  map from such strings to what is stored there. A directory carries the names of its
  entries in the order the operating system lists them (the order \<^verbatim>\<open>iterdir\<close> and
  \<^verbatim>\<open>glob\<close> see); a regular file carries its text. Paths are taken as already
  normalised by \<^verbatim>\<open>Path(...)\<close> (no trailing slash), names are compared as on a POSIX
  system (case matters). The disk holds files and directories only, no symbolic links.
  Two normalised paths are special: \<^verbatim>\<open>.\<close>, the current directory, and the root, the
  one path that ends in a slash; joining a name to them adds no slash, and their own
  name is empty.
\<close>

datatype fsobj = Regular string | Directory "string list"

type_synonym filesystem = "string \<rightharpoonup> fsobj"

datatype error =
    ValueError string
  | FileNotFoundError string
  | NotADirectoryError string
  | OSError string

definition child :: "string \<Rightarrow> string \<Rightarrow> string" where
  "child p n = (if p = ''.'' then n
                else if p \<noteq> [] \<and> last p = CHR ''/'' then p @ n
                else p @ ''/'' @ n)"

definition path_name :: "string \<Rightarrow> string" where
  "path_name p = (if p = ''.'' then [] else rev (takeWhile (\<lambda>c. c \<noteq> CHR ''/'') (rev p)))"

definition endswith :: "string \<Rightarrow> string \<Rightarrow> bool" where
  "endswith s suf = (length suf \<le> length s \<and> drop (length s - length suf) s = suf)"

text \<open>The patterns of the source are \<^verbatim>\<open>*.obj\<close>, \<^verbatim>\<open>*.geojson\<close> and \<^verbatim>\<open>*.txt\<close>: a star, then
  literal text.\<close>

definition fnmatch :: "string \<Rightarrow> string \<Rightarrow> bool" where
  "fnmatch n pat = (case pat of c # suf \<Rightarrow> if c = CHR ''*'' then endswith n suf else n = pat
                               | [] \<Rightarrow> n = pat)"

definition entries :: "filesystem \<Rightarrow> string \<Rightarrow> string list" where
  "entries fs p = (case fs p of Some (Directory ns) \<Rightarrow> ns | _ \<Rightarrow> [])"

definition glob :: "filesystem \<Rightarrow> string \<Rightarrow> string \<Rightarrow> string list" where
  "glob fs p pat = map (child p) (filter (\<lambda>n. fnmatch n pat) (entries fs p))"

definition iterdir :: "filesystem \<Rightarrow> string \<Rightarrow> error + string list" where
  "iterdir fs p =
     (case fs p of
        None \<Rightarrow> Inl (FileNotFoundError p)
      | Some (Regular _) \<Rightarrow> Inl (NotADirectoryError p)
      | Some (Directory ns) \<Rightarrow> Inr (map (child p) ns))"

definition is_dir :: "filesystem \<Rightarrow> string \<Rightarrow> bool" where
  "is_dir fs p = (case fs p of Some (Directory _) \<Rightarrow> True | _ \<Rightarrow> False)"

section \<open>Discovery of work units (\<^verbatim>\<open>ProcessingGUI\<close>)\<close>

text \<open>The four input variables of the form; \<^verbatim>\<open>self.processing\<close> and \<^verbatim>\<open>self.process\<close>
  belong to a run and are threaded through \<open>run_processing\<close> below.\<close>

record gui =
  data_folder :: string
  dtm_path :: string
  output_folder :: string
  batch_mode :: bool

definition has_required_files :: "filesystem \<Rightarrow> string \<Rightarrow> bool" where
  "has_required_files fs folder_path =
     (let obj_files = glob fs folder_path ''*.obj'';
          geojson_files = glob fs folder_path ''*.geojson'';
          txt_files = glob fs folder_path ''*.txt''
      in length obj_files > 0 \<and> length geojson_files > 0 \<and> length txt_files > 0)"

definition get_processing_folders :: "gui \<Rightarrow> filesystem \<Rightarrow> error + string list" where
  "get_processing_folders self fs =
     (if data_folder self = [] then Inr []
      else
        let data_path = data_folder self in
        if batch_mode self then
          (case iterdir fs data_path of
             Inl e \<Rightarrow> Inl e
           | Inr subs \<Rightarrow>
               Inr (filter (\<lambda>subfolder. is_dir fs subfolder \<and> has_required_files fs subfolder) subs))
        else Inr (if has_required_files fs data_path then [data_path] else []))"

section \<open>The plan of one unit (\<^verbatim>\<open>create_shell_script\<close>)\<close>

text \<open>
  The script text is a fixed template with six interpolated values; the record holds
  the six values, \<open>script_body\<close> below is the template.
\<close>

record script =
  TXT :: string
  OBJ :: string
  BO :: string
  DTM :: string
  SUBGRID_PREFIX :: string
  OUTPUT_PATH :: string

definition create_shell_script :: "gui \<Rightarrow> filesystem \<Rightarrow> string \<Rightarrow> string \<Rightarrow> error + script" where
  "create_shell_script self fs folder_path subgrid_prefix =
     (let obj_files = glob fs folder_path ''*.obj'';
          geojson_files = glob fs folder_path ''*.geojson'';
          txt_files = glob fs folder_path ''*.txt''
      in if \<not> (obj_files \<noteq> [] \<and> geojson_files \<noteq> [] \<and> txt_files \<noteq> [])
         then Inl (ValueError (''Missing required files in '' @ folder_path))
         else Inr \<lparr>TXT = hd txt_files, OBJ = hd obj_files, BO = hd geojson_files,
                   DTM = dtm_path self, SUBGRID_PREFIX = subgrid_prefix,
                   OUTPUT_PATH = output_folder self\<rparr>)"

section \<open>The generated script, as the shell runs it\<close>

text \<open>
  The template has no \<^verbatim>\<open>set -e\<close>, no \<^verbatim>\<open>&&\<close> and no \<^verbatim>\<open>exit\<close>: the shell runs its commands
  one after the other, whatever their exit statuses, and its own exit status is that
  of the last command it ran. The commands are assignments, \<^verbatim>\<open>mkdir -p\<close>, \<^verbatim>\<open>echo\<close>
  and the seven stage programs. The assignments leave no action of their own: the
  values of the variables are written out where they are used, and the two command
  substitutions that read \<^verbatim>\<open>X\<close> and \<^verbatim>\<open>Y\<close> (\<^verbatim>\<open>sed\<close> piped into \<^verbatim>\<open>tr\<close>) are the function
  \<open>coord\<close> below.

  The six values are pasted into the script between double quotes. \<open>script_body\<close> reads
  them as the literal text of the words they stand in, which is what the shell does
  when they hold none of the four characters that keep their meaning between double
  quotes; \<open>plain_script\<close> below says so, and every statement about the commands a
  script runs assumes it (or \<open>shell_safe\<close> of the unit name and the output folder, where
  only these matter). The script is written in text mode: on a system whose line end is
  not the newline (\<^verbatim>\<open>os.name == 'nt'\<close>) its lines end in a carriage return, and what the
  shell makes of them is not modelled; every statement about a script that runs assumes
  \<open>\<not> nt w\<close>.
\<close>

datatype stage = Separate | Decimate | Translate | Elevate | Semantic | CityGML | Merge


datatype action = Mkdir string | Echo string | Run stage "string list"

abbreviation LF :: char where "LF \<equiv> CHR 0x0A"
abbreviation CR :: char where "CR \<equiv> CHR 0x0D"

text \<open>The lines of a text file: a final line need not end in a newline.\<close>

function file_lines :: "string \<Rightarrow> string list" where
  "file_lines [] = []"
| "file_lines (c # cs) =
     takeWhile (\<lambda>x. x \<noteq> LF) (c # cs) # file_lines (drop 1 (dropWhile (\<lambda>x. x \<noteq> LF) (c # cs)))"
  by pat_completeness auto
termination
  by (relation "measure length")
     (auto simp: less_Suc_eq_le intro: le_trans [OF diff_le_self length_dropWhile_le])

definition read_text :: "filesystem \<Rightarrow> string \<Rightarrow> string" where
  "read_text fs p = (case fs p of Some (Regular t) \<Rightarrow> t | _ \<Rightarrow> [])"

text \<open>\<^verbatim>\<open>$(sed -n 'Np' "$TXT" | tr -d '\r')\<close>: line \<open>N\<close> of the file, nothing when the file
  has no such line (or cannot be read), every carriage return deleted.\<close>

definition sed_n_p :: "nat \<Rightarrow> string \<Rightarrow> string" where
  "sed_n_p n t = (let ls = file_lines t in if 1 \<le> n \<and> n \<le> length ls then ls ! (n - 1) else [])"

definition tr_d_cr :: "string \<Rightarrow> string" where
  "tr_d_cr s = filter (\<lambda>c. c \<noteq> CR) s"

definition coord :: "filesystem \<Rightarrow> string \<Rightarrow> nat \<Rightarrow> string" where
  "coord fs txt n = tr_d_cr (sed_n_p n (read_text fs txt))"

text \<open>
  \<^verbatim>\<open>-cx=$X\<close> is not quoted: the shell splits the value of \<^verbatim>\<open>X\<close> at blanks, the literal
  \<^verbatim>\<open>-cx=\<close> stays glued to the first field unless the value starts with a blank.
  A value that holds a pattern character is also expanded against the working
  directory; \<open>glob_free\<close> below excludes it.
\<close>

definition is_blank :: "char \<Rightarrow> bool" where
  "is_blank c = (c = CHR '' '' \<or> c = CHR 0x09 \<or> c = LF)"

function fields :: "string \<Rightarrow> string list" where
  "fields s =
     (let r = dropWhile is_blank s
      in if r = [] then []
         else takeWhile (\<lambda>c. \<not> is_blank c) r # fields (dropWhile (\<lambda>c. \<not> is_blank c) r))"
  by pat_completeness auto
termination
proof (relation "measure length", simp, goal_cases)
  case (1 s r)
  then obtain c cs where r: "dropWhile is_blank s = c # cs" by (cases "dropWhile is_blank s") auto
  then have nb: "\<not> is_blank c" by (metis hd_dropWhile list.distinct(1) list.sel(1))
  have "length (dropWhile (\<lambda>c. \<not> is_blank c) (c # cs)) \<le> length cs"
    using nb by (simp add: length_dropWhile_le)
  also have "\<dots> < length (dropWhile is_blank s)" using r by simp
  also have "\<dots> \<le> length s" by (rule length_dropWhile_le)
  finally show ?case using 1 r by simp
qed

definition unquoted :: "string \<Rightarrow> string \<Rightarrow> string list" where
  "unquoted lit v =
     (case fields v of
        [] \<Rightarrow> [lit]
      | f # fs \<Rightarrow> if is_blank (hd v) then lit # f # fs else (lit @ f) # fs)"

definition script_body :: "filesystem \<Rightarrow> script \<Rightarrow> action list" where
  "script_body fs s =
     (let X = coord fs (TXT s) 1;
          Y = coord fs (TXT s) 2;
          out_separate = ''temp/'' @ SUBGRID_PREFIX s @ ''/separate'';
          out_decimate = ''temp/'' @ SUBGRID_PREFIX s @ ''/decimate'';
          out_translate = ''temp/'' @ SUBGRID_PREFIX s @ ''/translate'';
          out_semantic = ''temp/'' @ SUBGRID_PREFIX s @ ''/split'';
          out_elevate = ''temp/'' @ SUBGRID_PREFIX s @ ''/elevate'';
          out_citygml = ''temp/'' @ SUBGRID_PREFIX s @ ''/citygml'';
          final_output_citygml =
            OUTPUT_PATH s @ ''/'' @ SUBGRID_PREFIX s @ ''/'' @ SUBGRID_PREFIX s @ ''.gml''
      in [Mkdir out_separate,
          Mkdir out_decimate,
          Mkdir out_translate,
          Mkdir out_semantic,
          Mkdir out_elevate,
          Mkdir out_citygml,
          Mkdir (OUTPUT_PATH s @ ''/'' @ SUBGRID_PREFIX s),
          Echo (''Processing '' @ SUBGRID_PREFIX s @ ''...''),
          Echo (''X coordinate: '' @ X),
          Echo (''Y coordinate: '' @ Y),
          Echo ''Step 1: Separation...'',
          Run Separate
            ([''go'', ''run'', ''func/separator/objseparator.go'']
             @ unquoted ''-cx='' X @ unquoted ''-cy='' Y @ [OBJ s, BO s, out_separate]),
          Echo ''Step 2: Decimation...'',
          Run Decimate
            [''python'', ''func/decimate/decimate.py'', ''-i'', out_separate,
             ''-o'', out_decimate, ''-a'', ''25''],
          Echo ''Step 3: Translation...'',
          Run Translate
            ([''go'', ''run'', ''func/translate/translate.go'',
              ''-input='' @ out_decimate, ''-output='' @ out_translate]
             @ unquoted ''-tx='' X @ unquoted ''-ty='' Y @ [''-tz=0'']),
          Echo ''Step 4: Elevation...'',
          Run Elevate
            [''go'', ''run'', ''func/elevate/elevate.go'', ''--input'', out_translate,
             ''--output'', out_elevate, ''--dtm'', DTM s],
          Echo ''Step 5: Semantic mapping...'',
          Run Semantic
            [''go'', ''run'', ''func/semantic/semantic-mapping.go'', ''--obj-dir'', out_elevate,
             ''--geojson'', BO s, ''--output'', out_semantic],
          Echo ''Step 6: Convert to CityGML...'',
          Run CityGML
            [''go'', ''run'', ''func/building-lod2/to-citygml-lod2.go'', ''-input'', out_semantic,
             ''-output'', out_citygml],
          Echo ''Step 7: Merge CityGML...'',
          Run Merge
            [''go'', ''run'', ''func/merge-citygml/merge-building-lod2.go'', ''--input'', out_citygml,
             ''--output'', final_output_citygml],
          Echo (''Processing completed for '' @ SUBGRID_PREFIX s)])"





section \<open>Running a batch (\<^verbatim>\<open>run_processing\<close>)\<close>

text \<open>
  What a run does is recorded as the list of its events, in order. Log lines are kept
  structured (which message, with which values) instead of formatted. \<open>Out\<close> is a line
  written to the pipe that the read loop has not logged; \<open>MkdirP\<close> and \<open>StageStart\<close>
  record that the command is run, with its arguments (what it does on the disk is the
  program's business), \<open>StageExit\<close> that a stage program has ended, with its status;
  \<open>FlagCleared\<close>, \<open>Terminate\<close> and \<open>Killed\<close> belong to the runs with a stop request of
  the next section.
\<close>

datatype status =
  Processing string nat nat | StatusCompleted | StatusStopped | StatusError | StatusStopping

datatype message =
    Starting nat
  | Header nat nat string
  | Line string
  | Succeeded string
  | ExitError string int
  | Exception string error
  | Completed
  | Stopped
  | Fatal error

datatype event =
    SetStatus status
  | Log message
  | WriteFile string
  | Chmod string
  | Popen "string list"
  | Out string
  | MkdirP string
  | StageStart stage "string list"
  | StageExit stage int
  | Remove string
  | FlagCleared
  | Terminate
  | Killed

text \<open>
  The world outside the program: the disk, the platform, whether the script file can be
  written and made executable and \<^verbatim>\<open>bash\<close> launched (\<^verbatim>\<open>open\<close>, \<^verbatim>\<open>write\<close>, \<^verbatim>\<open>chmod\<close> and
  \<^verbatim>\<open>Popen\<close> raise otherwise, and the \<^verbatim>\<open>except Exception\<close> of the loop catches it), and
  what every external program prints and returns for a given command line. What a
  program prints is given as its lines, the standard error among them (the pipe carries
  both), and is taken to be text that Python can decode.
\<close>

record world =
  files :: filesystem
  nt :: bool
  can_write :: "string \<Rightarrow> bool"
  can_launch :: "string list \<Rightarrow> bool"
  program :: "string list \<Rightarrow> string list \<times> int"

text \<open>The shell running a list of commands to its end: every command runs, the return
  code is the status of the last one.\<close>

fun run_bash :: "world \<Rightarrow> action list \<Rightarrow> int \<Rightarrow> event list \<times> int" where
  "run_bash w [] status = ([], status)"
| "run_bash w (Mkdir d # rest) status =
     (let (out, st) = program w [''mkdir'', ''-p'', d];
          (evs, rc) = run_bash w rest st
      in (MkdirP d # map Out out @ evs, rc))"
| "run_bash w (Echo s # rest) status =
     (let (evs, rc) = run_bash w rest 0 in (Out s # evs, rc))"
| "run_bash w (Run g argv # rest) status =
     (let (out, st) = program w argv;
          (evs, rc) = run_bash w rest st
      in (StageStart g argv # map Out out @ StageExit g st # evs, rc))"

definition is_space :: "char \<Rightarrow> bool" where
  "is_space c = (c = CHR '' '' \<or> c = CHR 0x09 \<or> c = LF \<or> c = CHR 0x0B \<or> c = CHR 0x0C \<or> c = CR
                 \<or> c = CHR 0x1C \<or> c = CHR 0x1D \<or> c = CHR 0x1E \<or> c = CHR 0x1F)"

definition strip :: "string \<Rightarrow> string" where
  "strip s = rev (dropWhile is_space (rev (dropWhile is_space s)))"

text \<open>The read loop of lines 378 to 381 over what the script does: a line is logged,
  stripped, while \<^verbatim>\<open>self.processing\<close> holds; once it does not, the loop is left and the
  lines that follow stay in the pipe.\<close>

fun read_loop :: "bool \<Rightarrow> event list \<Rightarrow> event list" where
  "read_loop processing [] = []"
| "read_loop processing (Out l # evs) =
     (if \<not> processing then Out l # evs
      else Log (Line (strip l)) # read_loop processing evs)"
| "read_loop processing (e # evs) = e # read_loop processing evs"

definition script_path :: "string \<Rightarrow> string" where
  "script_path subgrid_prefix = ''temp_script_'' @ subgrid_prefix @ ''.sh''"

text \<open>Lines 344 to 360: the status, the header, the script built and written. No
  script comes back when \<^verbatim>\<open>create_shell_script\<close> or \<^verbatim>\<open>open\<close> raised.\<close>

definition prepare :: "gui \<Rightarrow> world \<Rightarrow> nat \<Rightarrow> nat \<Rightarrow> string \<Rightarrow> event list \<times> script option" where
  "prepare self w i total_folders folder_path =
     (let subgrid_prefix = path_name folder_path;
          begun = [SetStatus (Processing subgrid_prefix i total_folders),
                   Log (Header i total_folders subgrid_prefix)]
      in case create_shell_script self (files w) folder_path subgrid_prefix of
           Inl e \<Rightarrow> (begun @ [Log (Exception subgrid_prefix e)], None)
         | Inr script_content \<Rightarrow>
             if \<not> can_write w (script_path subgrid_prefix)
             then (begun @ [Log (Exception subgrid_prefix (OSError (script_path subgrid_prefix)))],
                   None)
             else (begun @ [WriteFile (script_path subgrid_prefix)]
                         @ (if nt w then [] else [Chmod (script_path subgrid_prefix)]),
                   Some script_content))"

text \<open>Lines 385 to 394: the outcome logged from the return code, the script file
  removed.\<close>

definition conclude :: "string \<Rightarrow> int \<Rightarrow> event list" where
  "conclude subgrid_prefix returncode =
     [Log (if returncode = 0 then Succeeded subgrid_prefix
           else ExitError subgrid_prefix returncode),
      Remove (script_path subgrid_prefix)]"

text \<open>One turn of the loop body, lines 344 to 397, in a run during which
  \<^verbatim>\<open>stop_processing\<close> is not called: the flag is read and never written.\<close>

definition process_folder ::
  "gui \<Rightarrow> world \<Rightarrow> bool \<Rightarrow> nat \<Rightarrow> nat \<Rightarrow> string \<Rightarrow> event list \<times> bool" where
  "process_folder self w processing i total_folders folder_path =
     (case prepare self w i total_folders folder_path of
        (written, None) \<Rightarrow> (written, processing)
      | (written, Some script_content) \<Rightarrow>
          let subgrid_prefix = path_name folder_path;
              cmd = [''bash'', script_path subgrid_prefix]
          in if \<not> can_launch w cmd
             then (written @ [Log (Exception subgrid_prefix (OSError ''bash''))], processing)
             else
               let (evs, returncode) = run_bash w (script_body (files w) script_content) 0
               in (written @ [Popen cmd] @ read_loop processing evs
                     @ conclude subgrid_prefix returncode,
                   processing))"

text \<open>The \<^verbatim>\<open>for\<close> loop of lines 340 to 397, with the check of the flag at its head.
  \<^verbatim>\<open>start_processing\<close> sets the flag before the thread starts, so the loop is entered
  with the flag set. The \<^verbatim>\<open>finally\<close> block, which resets the buttons and the flag once
  the run is over, leaves no event.\<close>

fun batch_loop ::
  "gui \<Rightarrow> world \<Rightarrow> nat \<Rightarrow> nat \<Rightarrow> bool \<Rightarrow> string list \<Rightarrow> event list \<times> bool" where
  "batch_loop self w total_folders i processing [] = ([], processing)"
| "batch_loop self w total_folders i processing (folder_path # rest) =
     (if \<not> processing then ([], processing)
      else
        let (evs, processing') = process_folder self w processing i total_folders folder_path;
            (evs', processing'') = batch_loop self w total_folders (i + 1) processing' rest
        in (evs @ evs', processing''))"

definition run_processing :: "gui \<Rightarrow> world \<Rightarrow> event list" where
  "run_processing self w =
     (case get_processing_folders self (files w) of
        Inl e \<Rightarrow> [Log (Fatal e), SetStatus StatusError]
      | Inr folders_to_process \<Rightarrow>
          let total_folders = length folders_to_process;
              (evs, processing) = batch_loop self w total_folders 1 True folders_to_process
          in Log (Starting total_folders) # evs
               @ (if processing then [Log Completed, SetStatus StatusCompleted]
                  else [Log Stopped, SetStatus StatusStopped]))"




















section \<open>A run with a stop request (\<^verbatim>\<open>stop_processing\<close>)\<close>

text \<open>
  \<^verbatim>\<open>run_processing\<close> is the body of a thread; the shell it launches and the stage
  program the shell waits for are processes of their own; \<^verbatim>\<open>stop_processing\<close> runs in
  the thread of the window when the stop button is pressed. The four take their steps
  in any order: a run is given by its schedule, the list of who moves next.

  The state holds \<^verbatim>\<open>self.processing\<close> and \<^verbatim>\<open>self.process\<close>, the stage program the shell
  waits for (its stage, the lines it has yet to print, the status it will return), the
  lines in the pipe that nobody has read yet, where the thread stands in
  \<^verbatim>\<open>run_processing\<close>, the folders the loop has yet to visit with the counter \<^verbatim>\<open>i\<close> and the
  total, and where the window stands in \<^verbatim>\<open>stop_processing\<close>.
\<close>

datatype shell_state = NoProcess | Alive "action list" int | Exited int

datatype worker_at =
    Boot
  | Head
  | Enter string
  | Launch string script
  | Read string
  | Test string string
  | Forward string string
  | Wait string
  | After
  | Finished

datatype window_at = Idle | Clicked

datatype actor = Worker | Shell | Program | Gui

record sys =
  self_processing :: bool
  self_process :: shell_state
  job :: "(stage \<times> string list \<times> int) option"
  pipe :: "string list"
  worker :: worker_at
  queue :: "string list"
  turn :: nat
  total :: nat
  button :: window_at

text \<open>\<^verbatim>\<open>start_processing\<close> has set the flag and enabled the stop button; the thread is
  about to enter \<^verbatim>\<open>run_processing\<close>.\<close>

definition at_start :: sys where
  "at_start = \<lparr>self_processing = True, self_process = NoProcess, job = None, pipe = [],
            worker = Boot, queue = [], turn = 1, total = 0, button = Idle\<rparr>"

text \<open>The read loop sees the end of the pipe once the shell has ended and no program
  started by it holds the pipe open.\<close>

definition at_eof :: "sys \<Rightarrow> bool" where
  "at_eof s = (job s = None \<and> (case self_process s of Alive acts st \<Rightarrow> False | _ \<Rightarrow> True))"

text \<open>
  The thread, one step at a time. \<open>Boot\<close> is lines 335 to 338; \<open>Head\<close> the head of the
  loop with the test of line 341; \<open>Enter\<close> lines 344 to 360; \<open>Launch\<close> the \<^verbatim>\<open>Popen\<close> of
  line 369, which opens a new pipe; \<open>Read\<close> waits for the next line of the pipe or its
  end; \<open>Test\<close> is line 379, \<open>Forward\<close> line 381; \<open>Wait\<close> is \<^verbatim>\<open>wait()\<close> and lines 385 to
  394; \<open>After\<close> lines 399 to 404 and the \<^verbatim>\<open>finally\<close> block. A step that has to wait
  changes nothing.
\<close>

definition worker_step :: "gui \<Rightarrow> world \<Rightarrow> sys \<Rightarrow> event list \<times> sys" where
  "worker_step self w s =
     (case worker s of
        Boot \<Rightarrow>
          (case get_processing_folders self (files w) of
             Inl e \<Rightarrow> ([Log (Fatal e), SetStatus StatusError],
                       s\<lparr>self_processing := False, worker := Finished\<rparr>)
           | Inr folders_to_process \<Rightarrow>
               ([Log (Starting (length folders_to_process))],
                s\<lparr>queue := folders_to_process, total := length folders_to_process, turn := 1,
                  worker := Head\<rparr>))
      | Head \<Rightarrow>
          (case queue s of
             [] \<Rightarrow> ([], s\<lparr>worker := After\<rparr>)
           | folder_path # rest \<Rightarrow>
               if \<not> self_processing s then ([], s\<lparr>worker := After\<rparr>)
               else ([], s\<lparr>worker := Enter folder_path, queue := rest\<rparr>))
      | Enter folder_path \<Rightarrow>
          (case prepare self w (turn s) (total s) folder_path of
             (written, None) \<Rightarrow> (written, s\<lparr>worker := Head, turn := turn s + 1\<rparr>)
           | (written, Some script_content) \<Rightarrow>
               (written, s\<lparr>worker := Launch folder_path script_content\<rparr>))
      | Launch folder_path script_content \<Rightarrow>
          (let cmd = [''bash'', script_path (path_name folder_path)]
           in if \<not> can_launch w cmd
              then ([Log (Exception (path_name folder_path) (OSError ''bash''))],
                    s\<lparr>worker := Head, turn := turn s + 1\<rparr>)
              else ([Popen cmd],
                    s\<lparr>self_process := Alive (script_body (files w) script_content) 0,
                      job := None, pipe := [], worker := Read folder_path\<rparr>))
      | Read folder_path \<Rightarrow>
          (case pipe s of
             line # rest \<Rightarrow> ([], s\<lparr>pipe := rest, worker := Test folder_path line\<rparr>)
           | [] \<Rightarrow> if at_eof s then ([], s\<lparr>worker := Wait folder_path\<rparr>) else ([], s))
      | Test folder_path line \<Rightarrow>
          (if \<not> self_processing s then ([], s\<lparr>worker := Wait folder_path\<rparr>)
           else ([], s\<lparr>worker := Forward folder_path line\<rparr>))
      | Forward folder_path line \<Rightarrow>
          ([Log (Line (strip line))], s\<lparr>worker := Read folder_path\<rparr>)
      | Wait folder_path \<Rightarrow>
          (case self_process s of
             Exited returncode \<Rightarrow>
               (conclude (path_name folder_path) returncode,
                s\<lparr>worker := Head, turn := turn s + 1\<rparr>)
           | _ \<Rightarrow> ([], s))
      | After \<Rightarrow>
          (if self_processing s then [Log Completed, SetStatus StatusCompleted]
           else [Log Stopped, SetStatus StatusStopped],
           s\<lparr>self_processing := False, worker := Finished\<rparr>)
      | Finished \<Rightarrow> ([], s))"

text \<open>The shell runs its next command once the program it waits for has ended.
  \<^verbatim>\<open>mkdir\<close> and \<^verbatim>\<open>echo\<close> are done in one step; a stage program is started and left to
  run; after the last command the shell exits with the status of the last one.\<close>

definition shell_step :: "world \<Rightarrow> sys \<Rightarrow> event list \<times> sys" where
  "shell_step w s =
     (case self_process s of
        Alive acts status \<Rightarrow>
          if job s \<noteq> None then ([], s)
          else
            (case acts of
               [] \<Rightarrow> ([], s\<lparr>self_process := Exited status\<rparr>)
             | Mkdir d # rest \<Rightarrow>
                 (let (out, st) = program w [''mkdir'', ''-p'', d]
                  in ([MkdirP d], s\<lparr>self_process := Alive rest st, pipe := pipe s @ out\<rparr>))
             | Echo t # rest \<Rightarrow>
                 ([], s\<lparr>self_process := Alive rest 0, pipe := pipe s @ [t]\<rparr>)
             | Run g argv # rest \<Rightarrow>
                 (let (out, st) = program w argv
                  in ([StageStart g argv],
                      s\<lparr>self_process := Alive rest status, job := Some (g, out, st)\<rparr>)))
      | _ \<Rightarrow> ([], s))"

text \<open>The stage program prints its next line, or ends; its status becomes the status
  of the shell's last command if the shell is still there to take it.\<close>

definition program_step :: "sys \<Rightarrow> event list \<times> sys" where
  "program_step s =
     (case job s of
        None \<Rightarrow> ([], s)
      | Some (g, line # out, st) \<Rightarrow> ([], s\<lparr>pipe := pipe s @ [line], job := Some (g, out, st)\<rparr>)
      | Some (g, [], st) \<Rightarrow>
          ([StageExit g st],
           s\<lparr>job := None,
             self_process := (case self_process s of Alive rest status \<Rightarrow> Alive rest st
                              | p \<Rightarrow> p)\<rparr>))"

text \<open>
  \<^verbatim>\<open>stop_processing\<close>, in two steps. The first is line 433: the flag is cleared. The
  second is lines 434 to 439: if there is a process, \<^verbatim>\<open>terminate()\<close> is called on it. A
  shell that is running dies of the signal before it runs another command (\<open>Killed\<close>),
  with return code \<open>-15\<close>; the stage program it was waiting for is not signalled and runs
  on, still writing to the pipe. On a process that
  has ended already the call does nothing. The button can be pressed until the
  \<^verbatim>\<open>finally\<close> block has disabled it.
\<close>

definition gui_step :: "sys \<Rightarrow> event list \<times> sys" where
  "gui_step s =
     (case button s of
        Idle \<Rightarrow>
          if worker s = Finished then ([], s)
          else ([FlagCleared], s\<lparr>self_processing := False, button := Clicked\<rparr>)
      | Clicked \<Rightarrow>
          (case self_process s of
             NoProcess \<Rightarrow> ([SetStatus StatusStopping], s\<lparr>button := Idle\<rparr>)
           | Alive acts status \<Rightarrow>
               ([Terminate, Killed, SetStatus StatusStopping],
                s\<lparr>self_process := Exited (- 15), button := Idle\<rparr>)
           | Exited returncode \<Rightarrow>
               ([Terminate, SetStatus StatusStopping], s\<lparr>button := Idle\<rparr>)))"

definition step :: "gui \<Rightarrow> world \<Rightarrow> actor \<Rightarrow> sys \<Rightarrow> event list \<times> sys" where
  "step self w a s =
     (case a of
        Worker \<Rightarrow> worker_step self w s
      | Shell \<Rightarrow> shell_step w s
      | Program \<Rightarrow> program_step s
      | Gui \<Rightarrow> gui_step s)"

text \<open>A run under a schedule: the events it leaves, in order, and the state it ends
  in.\<close>

fun exec :: "gui \<Rightarrow> world \<Rightarrow> actor list \<Rightarrow> sys \<Rightarrow> event list \<times> sys" where
  "exec self w [] s = ([], s)"
| "exec self w (a # sched) s =
     (let (evs, s') = step self w a s;
          (evs', s'') = exec self w sched s'
      in (evs @ evs', s''))"













section \<open>The directories of a unit\<close>











section \<open>Qualification, as the specification words it\<close>

definition count_kind :: "filesystem \<Rightarrow> string \<Rightarrow> string \<Rightarrow> nat" where
  "count_kind fs D ext = length (filter (suffix ext) (entries fs D))"

definition qualifies :: "filesystem \<Rightarrow> string \<Rightarrow> bool" where
  "qualifies fs D =
     (count_kind fs D ''.obj'' \<ge> 1 \<and> count_kind fs D ''.geojson'' \<ge> 1 \<and> count_kind fs D ''.txt'' \<ge> 1)"

section \<open>A sample disk and sample worlds\<close>

text \<open>A data root with three tiles, of which \<open>C\<close> has no footprint file. The order in
  which the root lists its entries and the text of the coordinate files are left open.\<close>

definition tiles :: "string list \<Rightarrow> string \<Rightarrow> filesystem" where
  "tiles listing coords = map_of
     [(''/data'', Directory listing),
      (''/data/A'', Directory [''a.obj'', ''a.geojson'', ''a.txt'']),
      (''/data/A/a.txt'', Regular coords),
      (''/data/B'', Directory [''notes.md'', ''b.txt'', ''b2.obj'', ''b.obj'', ''b.geojson'']),
      (''/data/B/b.txt'', Regular coords),
      (''/data/C'', Directory [''c.obj'', ''c.txt'']),
      (''/data/C/c.txt'', Regular coords)]"

definition form :: gui where
  "form = \<lparr>data_folder = ''/data'', dtm_path = ''/dtm.tif'', output_folder = ''/out'',
            batch_mode = True\<rparr>"

definition two_lines :: string where
  "two_lines = ''12345.6'' @ [CR, LF] @ ''67890.1'' @ [CR, LF]"


text \<open>A world where everything works.\<close>

definition sound :: world where
  "sound = \<lparr>files = tiles [''A'', ''B'', ''C''] two_lines, nt = False,
             can_write = (\<lambda>p. True), can_launch = (\<lambda>c. True),
             program = (\<lambda>argv. ([], 0))\<rparr>"






text \<open>A schedule without a press of the button, in which the thread reads every line as
  soon as it is written: two units, each with its seven directories, its lines and its
  seven stages.\<close>

definition line_read :: "actor list" where
  "line_read = [Shell, Worker, Worker, Worker]"

definition unit_schedule :: "actor list" where
  "unit_schedule = replicate 3 Worker @ replicate 7 Shell @ concat (replicate 3 line_read)
     @ concat (replicate 7 (line_read @ [Shell, Program])) @ line_read
     @ [Shell, Worker, Worker]"

definition unhurried :: "actor list" where
  "unhurried = [Worker] @ unit_schedule @ unit_schedule @ [Worker, Worker]"

section \<open>The decimation tool (\<^verbatim>\<open>decimate.py\<close>)\<close>

text \<open>
  The tool walks the tree below its input directory, so here the disk is a tree:
  a file with its name, a directory with its name and entries. The host of a run is
  what is found at the input path, whether \<^verbatim>\<open>os.makedirs\<close> succeeds on a path (it fails
  where a file stands in the way or a parent cannot be written), whether the standard
  output can be written (it is open and can encode the text), and the work done on one
  file inside Blender (\<^verbatim>\<open>process_obj_file\<close>), which says whether it succeeded: every
  \<^verbatim>\<open>Exception\<close> there is caught and counts as a failure. A Blender that crashes or ends
  the interpreter, and a Python without the module \<^verbatim>\<open>bpy\<close>, are outside the model. With
  a standard output that cannot be written the run is \<open>Broken\<close>: \<^verbatim>\<open>print\<close> raises, or the
  text is lost when the interpreter flushes at its end, and the exit code (1 or 120) is
  not the model's to tell.

  The command line is what \<^verbatim>\<open>argparse\<close> makes of it: rejected (a required option is
  missing, the angle is no number), a request for help, or the two directories, taken
  as the absolute paths that \<^verbatim>\<open>os.path.abspath\<close> returns; the angle is passed through to
  Blender and has no part in the control flow. \<^verbatim>\<open>argparse\<close> ends a rejected command line
  with \<^verbatim>\<open>sys.exit(2)\<close> and a request for help with \<^verbatim>\<open>sys.exit(0)\<close>. An exception that
  nothing catches ends the interpreter with exit code 1; a run that reaches the end of
  \<^verbatim>\<open>main\<close> exits with 0.
\<close>

datatype tree = FileT string | DirT string "tree list"

datatype cmdline = Usage | Help | Parsed string string

record host =
  disk :: "tree option"
  makedirs :: "string \<Rightarrow> bool"
  stdout_ok :: bool
  process_obj_file :: "string \<Rightarrow> string \<Rightarrow> bool"

definition os_path_join :: "string \<Rightarrow> string \<Rightarrow> string" where
  "os_path_join a b = a @ ''/'' @ b"

definition relpath :: "string \<Rightarrow> string \<Rightarrow> string" where
  "relpath p start = drop (length start + 1) p"

definition lower_char :: "char \<Rightarrow> char" where
  "lower_char c = (if CHR ''A'' \<le> c \<and> c \<le> CHR ''Z'' then char_of (of_char c + (32::nat)) else c)"

definition lower :: "string \<Rightarrow> string" where
  "lower s = map lower_char s"

fun file_names :: "tree list \<Rightarrow> string list" where
  "file_names [] = []"
| "file_names (FileT n # ts) = n # file_names ts"
| "file_names (DirT n sub # ts) = file_names ts"

fun dir_names :: "tree list \<Rightarrow> string list" where
  "dir_names [] = []"
| "dir_names (FileT n # ts) = dir_names ts"
| "dir_names (DirT n sub # ts) = n # dir_names ts"

text \<open>\<^verbatim>\<open>os.walk\<close>, top down: the directory itself, then each of its subdirectories.\<close>

fun walk :: "string \<Rightarrow> tree list \<Rightarrow> (string \<times> string list \<times> string list) list"
  and walk_sub :: "string \<Rightarrow> tree list \<Rightarrow> (string \<times> string list \<times> string list) list" where
  "walk dirpath ch = (dirpath, dir_names ch, file_names ch) # walk_sub dirpath ch"
| "walk_sub dirpath [] = []"
| "walk_sub dirpath (FileT n # ts) = walk_sub dirpath ts"
| "walk_sub dirpath (DirT n sub # ts) = walk (os_path_join dirpath n) sub @ walk_sub dirpath ts"

definition os_walk :: "string \<Rightarrow> tree \<Rightarrow> (string \<times> string list \<times> string list) list" where
  "os_walk dirpath t = (case t of FileT n \<Rightarrow> [] | DirT n ch \<Rightarrow> walk dirpath ch)"

definition find_obj_files :: "string \<Rightarrow> tree \<Rightarrow> string list" where
  "find_obj_files input_dir t =
     sort (concat (map (\<lambda>(root, dirs, files).
                          map (os_path_join root)
                              (filter (\<lambda>file. endswith (lower file) ''.obj'') files))
                       (os_walk input_dir t)))"

datatype finish = SysExit int | Uncaught | Returned nat nat | Broken

fun exit_code :: "finish \<Rightarrow> int option" where
  "exit_code (SysExit c) = Some c"
| "exit_code Uncaught = Some 1"
| "exit_code (Returned success_count total_files) = Some 0"
| "exit_code Broken = None"

definition main :: "host \<Rightarrow> cmdline \<Rightarrow> finish" where
  "main h argv =
     (case argv of
        Usage \<Rightarrow> SysExit 2
      | Help \<Rightarrow> if stdout_ok h then SysExit 0 else Broken
      | Parsed input_dir output_dir \<Rightarrow>
          if \<not> stdout_ok h then Broken
          else
            (case disk h of
               None \<Rightarrow> SysExit 1
             | Some t \<Rightarrow>
                 if \<not> makedirs h output_dir then Uncaught
                 else
                   let obj_files = find_obj_files input_dir t in
                   if obj_files = [] then SysExit 1
                   else
                     let total_files = length obj_files;
                         success_count =
                           fold (\<lambda>obj_file n.
                                   if process_obj_file h obj_file
                                        (os_path_join output_dir (relpath obj_file input_dir))
                                   then n + 1 else n)
                                obj_files 0
                     in Returned success_count total_files))"

text \<open>Every regular file below a tree, by name.\<close>

fun files_below :: "tree \<Rightarrow> string set" where
  "files_below (FileT n) = {}"
| "files_below (DirT n ch) = set (file_names ch) \<union> (\<Union>t \<in> set ch. files_below t)"

definition has_obj :: "tree \<Rightarrow> bool" where
  "has_obj t = (\<exists>n \<in> files_below t. suffix ''.obj'' (lower n))"

text \<open>A sample input tree; a host where Blender fails on every file; and a host
  where a file stands at the output path.\<close>

definition meshes :: tree where
  "meshes = DirT ''separate''
              [FileT ''b.OBJ'', DirT ''sub'' [FileT ''a.obj'', FileT ''x.txt''], FileT ''a.obj'']"

definition broken_blender :: host where
  "broken_blender = \<lparr>disk = Some meshes, makedirs = (\<lambda>p. True), stdout_ok = True,
                      process_obj_file = (\<lambda>input_path output_path. False)\<rparr>"

definition blocked_output :: host where
  "blocked_output = \<lparr>disk = Some meshes, makedirs = (\<lambda>p. p \<noteq> ''/w/temp/A/decimate''),
                      stdout_ok = True,
                      process_obj_file = (\<lambda>input_path output_path. True)\<rparr>"



section \<open>Facts about the model\<close>

text \<open>Names and projections of a trace.\<close>

lemma endswith_suffix: "endswith s suf \<longleftrightarrow> suffix suf s"
proof
  assume "endswith s suf"
  then have "s = take (length s - length suf) s @ suf"
    by (metis append_take_drop_id endswith_def)
  then show "suffix suf s" by (rule suffixI)
next
  assume "suffix suf s"
  then obtain zs where "s = zs @ suf" by (auto simp: suffix_def)
  then show "endswith s suf" by (simp add: endswith_def)
qed






























lemma glob_count: "length (glob fs D (CHR ''*'' # ext)) = count_kind fs D ext"
  by (simp add: glob_def count_kind_def fnmatch_def endswith_suffix)

lemma has_required_files_qualifies: "has_required_files fs D = qualifies fs D"
  unfolding has_required_files_def qualifies_def Let_def
  using glob_count [of fs D "''.obj''"] glob_count [of fs D "''.geojson''"]
    glob_count [of fs D "''.txt''"]
  by (simp add: Suc_le_eq)

lemma found_qualify:
  assumes "get_processing_folders self fs = Inr folders" "f \<in> set folders"
  shows "has_required_files fs f"
  using assms
  by (auto simp: get_processing_folders_def Let_def split: if_splits sum.splits)





















text \<open>The walk of the decimation tool.\<close>

lemma walk_files:
  "(\<Union>(r, d, f) \<in> set (walk p ch). set f) = set (file_names ch) \<union> (\<Union>t \<in> set ch. files_below t)"
  "(\<Union>(r, d, f) \<in> set (walk_sub p ch). set f) = (\<Union>t \<in> set ch. files_below t)"
  by (induction p ch and p ch rule: walk_walk_sub.induct) auto

lemma os_walk_files: "(\<Union>(r, d, f) \<in> set (os_walk p t). set f) = files_below t"
  by (cases t) (simp_all add: os_walk_def walk_files del: walk.simps)

lemma sort_Nil_iff: "sort xs = [] \<longleftrightarrow> xs = []"
  by (metis length_0_conv length_sort)

lemma find_obj_files_Nil: "find_obj_files input_dir t = [] \<longleftrightarrow> \<not> has_obj t"
proof -
  have "find_obj_files input_dir t = [] \<longleftrightarrow>
          (\<forall>(r, d, f) \<in> set (os_walk input_dir t). \<forall>n \<in> set f. \<not> endswith (lower n) ''.obj'')"
    by (auto simp: find_obj_files_def sort_Nil_iff filter_empty_conv)
  also have "\<dots> \<longleftrightarrow> (\<forall>n \<in> (\<Union>(r, d, f) \<in> set (os_walk input_dir t). set f). \<not> endswith (lower n) ''.obj'')"
    by auto
  finally show ?thesis
    by (simp add: os_walk_files has_obj_def endswith_suffix)
qed













text \<open>Without a press of the button, and with every line read as it is written, the
  interleaved run leaves the events of \<open>run_processing\<close>.\<close>

lemma unhurried_run_agrees:
  "fst (exec form sound unhurried at_start) = run_processing form sound
   \<and> worker (snd (exec form sound unhurried at_start)) = Finished"
  by code_simp

section \<open>The claims\<close>







text \<open>
  Claim C3. A directory passes \<open>has_required_files\<close> exactly when it lists at least one
  entry ending in \<^verbatim>\<open>.obj\<close>, one ending in \<^verbatim>\<open>.geojson\<close> and one ending in \<^verbatim>\<open>.txt\<close>;
  in batch mode over a root that is a directory, discovery returns the subdirectories
  that qualify and leaves the others out, without an error.
\<close>

theorem qualification_iff_three_kinds:
  "(has_required_files fs D = qualifies fs D) \<and>
   (batch_mode self \<and> data_folder self \<noteq> [] \<and> fs (data_folder self) = Some (Directory ns) \<longrightarrow>
      get_processing_folders self fs =
        Inr (filter (\<lambda>p. is_dir fs p \<and> qualifies fs p) (map (child (data_folder self)) ns)))"
  by (simp add: has_required_files_qualifies get_processing_folders_def iterdir_def Let_def)

text \<open>The sample root: \<open>C\<close> is left out.\<close>

theorem qualification_iff_three_kinds_witness:
  "has_required_files (files sound) ''/data/C'' = qualifies (files sound) ''/data/C''
   \<and> get_processing_folders form (files sound) = Inr [''/data/A'', ''/data/B'']"
proof -
  have h: "batch_mode form \<and> data_folder form \<noteq> []
           \<and> files sound (data_folder form) = Some (Directory [''A'', ''B'', ''C''])"
    by (simp add: form_def sound_def tiles_def)
  have ev: "filter (\<lambda>p. is_dir (files sound) p \<and> qualifies (files sound) p)
              (map (child (data_folder form)) [''A'', ''B'', ''C'']) = [''/data/A'', ''/data/B'']"
    by code_simp
  from qualification_iff_three_kinds [of "files sound" "''/data/C''" form "[''A'', ''B'', ''C'']"] h ev
  show ?thesis by simp
qed







text \<open>
  Claim C6, as the code has it. In batch mode discovery returns the qualifying
  subdirectories in the order in which the root lists them: the result is the listing
  filtered, a subsequence of it. Nothing is sorted.
\<close>

theorem units_in_listing_order:
  assumes "batch_mode self" "data_folder self \<noteq> []" "fs (data_folder self) = Some (Directory ns)"
  shows "get_processing_folders self fs =
           Inr (filter (\<lambda>p. is_dir fs p \<and> has_required_files fs p) (map (child (data_folder self)) ns))
         \<and> subseq (filter (\<lambda>p. is_dir fs p \<and> has_required_files fs p) (map (child (data_folder self)) ns))
                  (map (child (data_folder self)) ns)"
  using assms by (simp add: get_processing_folders_def iterdir_def Let_def)

text \<open>A root that lists \<open>A\<close>, \<open>B\<close>, \<open>C\<close> in this order.\<close>

theorem units_in_listing_order_witness:
  "get_processing_folders form (tiles [''A'', ''B'', ''C''] two_lines) = Inr [''/data/A'', ''/data/B'']"
proof -
  have ev: "filter (\<lambda>p. is_dir (tiles [''A'', ''B'', ''C''] two_lines) p
                      \<and> has_required_files (tiles [''A'', ''B'', ''C''] two_lines) p)
              (map (child (data_folder form)) [''A'', ''B'', ''C'']) = [''/data/A'', ''/data/B'']"
    by code_simp
  have "batch_mode form" "data_folder form \<noteq> []"
    "tiles [''A'', ''B'', ''C''] two_lines (data_folder form) = Some (Directory [''A'', ''B'', ''C''])"
    by (simp_all add: form_def tiles_def)
  from units_in_listing_order [where self = form and fs = "tiles [''A'', ''B'', ''C''] two_lines"
        and ns = "[''A'', ''B'', ''C'']", OF this] ev show ?thesis by simp
qed

text \<open>The claim as stated fails: a root that lists \<open>B\<close> before \<open>A\<close> gives \<open>B\<close> before
  \<open>A\<close>.\<close>

theorem units_not_sorted:
  "get_processing_folders form (tiles [''B'', ''A'', ''C''] two_lines) = Inr [''/data/B'', ''/data/A'']
   \<and> \<not> sorted [''/data/B'', ''/data/A'']"
  by code_simp







text \<open>
  Claim C9, as the code has it. With a command line that \<^verbatim>\<open>argparse\<close> accepts and a
  standard output that can be written, the decimation tool exits with 1 exactly when
  its input directory does not exist, the output directory cannot be made, or no file
  below the input directory has a name ending in \<^verbatim>\<open>.obj\<close> (in any letter case);
  otherwise it exits with 0, whatever the per-file work returned. A rejected command
  line exits with 2, a request for help with 0.
\<close>

theorem decimate_exit_code:
  "exit_code (main h (Parsed input_dir output_dir)) =
     (if \<not> stdout_ok h then None
      else Some (if disk h = None \<or> \<not> makedirs h output_dir
                    \<or> (case disk h of None \<Rightarrow> True | Some t \<Rightarrow> \<not> has_obj t)
                 then 1 else 0))
   \<and> exit_code (main h Usage) = Some 2
   \<and> exit_code (main h Help) = (if stdout_ok h then Some 0 else None)"
  by (cases "disk h") (simp_all add: main_def Let_def find_obj_files_Nil)

text \<open>Three meshes, none of which Blender can process: exit code 0.\<close>

theorem decimate_exit_code_witness:
  "main broken_blender (Parsed ''/w/temp/A/separate'' ''/w/temp/A/decimate'') = Returned 0 3
   \<and> exit_code (main broken_blender (Parsed ''/w/temp/A/separate'' ''/w/temp/A/decimate''))
       = Some 0"
proof -
  have m: "main broken_blender (Parsed ''/w/temp/A/separate'' ''/w/temp/A/decimate'') = Returned 0 3"
    by code_simp
  have "has_obj meshes" by (simp add: has_obj_def meshes_def lower_def lower_char_def suffix_def)
  with decimate_exit_code [of broken_blender "''/w/temp/A/separate''" "''/w/temp/A/decimate''"] m
  show ?thesis by (simp add: broken_blender_def)
qed

text \<open>The claim as stated fails: the input directory exists and holds three meshes, a
  file stands where the output directory is to be made, and the tool exits with 1.\<close>

theorem output_directory_cannot_be_made:
  "disk blocked_output = Some meshes
   \<and> find_obj_files ''/w/temp/A/separate'' meshes
        = [''/w/temp/A/separate/a.obj'', ''/w/temp/A/separate/b.OBJ'',
           ''/w/temp/A/separate/sub/a.obj'']
   \<and> main blocked_output (Parsed ''/w/temp/A/separate'' ''/w/temp/A/decimate'') = Uncaught
   \<and> exit_code (main blocked_output (Parsed ''/w/temp/A/separate'' ''/w/temp/A/decimate''))
       = Some 1"
  by code_simp

text \<open>
  Claim C10. On the disk on which discovery returned a folder, the three globs of
  \<open>create_shell_script\<close> are not empty for that folder, and it returns the script built
  from the first match of each, not the \<^verbatim>\<open>ValueError\<close>.
\<close>

theorem found_folder_has_a_plan:
  assumes "get_processing_folders self fs = Inr folders" "folder_path \<in> set folders"
  shows "glob fs folder_path ''*.obj'' \<noteq> [] \<and> glob fs folder_path ''*.geojson'' \<noteq> []
         \<and> glob fs folder_path ''*.txt'' \<noteq> []
         \<and> create_shell_script self fs folder_path u =
             Inr \<lparr>TXT = hd (glob fs folder_path ''*.txt''), OBJ = hd (glob fs folder_path ''*.obj''),
                  BO = hd (glob fs folder_path ''*.geojson''), DTM = dtm_path self,
                  SUBGRID_PREFIX = u, OUTPUT_PATH = output_folder self\<rparr>"
  using found_qualify [OF assms]
  by (simp add: has_required_files_def create_shell_script_def Let_def)

text \<open>Tile \<open>B\<close>, which has two meshes: the first one listed is taken.\<close>

theorem found_folder_has_a_plan_witness:
  "create_shell_script form (files sound) ''/data/B'' ''B'' =
     Inr \<lparr>TXT = ''/data/B/b.txt'', OBJ = ''/data/B/b2.obj'', BO = ''/data/B/b.geojson'',
          DTM = ''/dtm.tif'', SUBGRID_PREFIX = ''B'', OUTPUT_PATH = ''/out''\<rparr>"
proof -
  have h: "get_processing_folders form (files sound) = Inr [''/data/A'', ''/data/B'']"
    by code_simp
  have ev: "hd (glob (files sound) ''/data/B'' ''*.txt'') = ''/data/B/b.txt''"
    "hd (glob (files sound) ''/data/B'' ''*.obj'') = ''/data/B/b2.obj''"
    "hd (glob (files sound) ''/data/B'' ''*.geojson'') = ''/data/B/b.geojson''"
    by code_simp+
  from found_folder_has_a_plan [OF h, of "''/data/B''" "''B''"] ev show ?thesis by (simp add: form_def)
qed

end
